theory Spec2Isabelle
  imports Main "HOL-Library.Word"
begin

unbundle bit_operations_syntax

section \<open>The snapshot record\<close>

text \<open>
  The package has two functions, \<open>Collect\<close> and \<open>Full\<close> (snapshot.go). Both only
  call the Go runtime and the operating system, so the embedding has three layers:
  the data (\<open>Snapshot\<close>), the platform (what the runtime and the OS answer, a record of
  inputs, and the file system, a map that \<open>Full\<close> changes), and the two functions,
  statement by statement.
\<close>

text \<open>
  \<open>runtime.MemStats\<close> and \<open>debug.GCStats\<close> are structs of the Go runtime that
  \<open>Collect\<close> only copies; they are kept as the sequence of their counter values.
\<close>

datatype MemStats = MemStats (mem_counters: "nat list")

datatype GCStats = GCStats (gc_counters: "nat list")

text \<open>\<open>debug.Module\<close> and \<open>debug.BuildInfo\<close>.\<close>

datatype Module =
  Module (mod_Path: string) (mod_Version: string) (mod_Sum: string) (mod_Replace: "Module option")

record BuildInfo =
  GoVersion :: string
  Path :: string
  MainModule :: Module
  Deps :: "Module list"
  Settings :: "(string \<times> string) list"

text \<open>The struct \<open>Snapshot\<close> (snapshot.go, lines 16 to 29), field by field.\<close>

record Snapshot =
  Memory :: MemStats
  GC :: GCStats
  Stack :: string
  BuildInfo :: BuildInfo
  NumGoRoutines :: int
  Pid :: int
  Uid :: int
  Gid :: int
  Environ :: "string list"
  Executable :: string
  Wd :: string
  Hostname :: string

text \<open>The zero value of each struct, which a named result holds before it is assigned.\<close>

definition zero_BuildInfo :: BuildInfo where
  "zero_BuildInfo =
     \<lparr>GoVersion = [], Path = [], MainModule = Module [] [] [] None, Deps = [], Settings = []\<rparr>"

definition zero_Snapshot :: Snapshot where
  "zero_Snapshot =
     \<lparr>Memory = MemStats [], GC = GCStats [], Stack = [], BuildInfo = zero_BuildInfo,
      NumGoRoutines = 0, Pid = 0, Uid = 0, Gid = 0, Environ = [], Executable = [],
      Wd = [], Hostname = []\<rparr>"

section \<open>The platform\<close>

text \<open>
  A call either returns or panics. A Go \<open>error\<close> is its message; \<open>nil\<close> is \<open>None\<close>.
\<close>

datatype 'a outcome = Returns 'a | Panics string

type_synonym error = "string option"

text \<open>A file of the file system: its permission bits and its bytes.\<close>

record File =
  mode :: "32 word"
  data :: string

type_synonym fs = "string \<rightharpoonup> File"

text \<open>
  What the Go runtime and the operating system answer to each call the package makes.
  A call of type \<open>(T, error)\<close> answers a pair, as in Go; a call that may fail and whose
  value is an effect answers only its error. The fields are named after the call.
  \<^item> \<open>debug_ReadBuildInfo\<close>: \<open>None\<close> is the answer \<open>(nil, false)\<close> of a binary built
    without module support.
  \<^item> \<open>os_OpenFile_err name\<close>: the error the OS gives for opening \<open>name\<close> for writing
    (missing parent directory, no permission, ...), if any.
  \<^item> \<open>zip_Create_err name\<close>: the error of \<open>zip.Writer.Create\<close> for the entry \<open>name\<close>.
  \<^item> \<open>json_Encode prefix indent v\<close>: the indented JSON text of \<open>v\<close>, or the encoder's
    error.
  \<^item> \<open>pprof_WriteTo name debug\<close>: the text of the profile \<open>name\<close> at that debug level,
    or the error of writing it.
  \<^item> \<open>os_CreateTemp_err\<close>, \<open>temp_file\<close>: the error of \<open>os.CreateTemp\<close>, and the
    path it picks otherwise.
  \<^item> \<open>heap_dump\<close>: the bytes \<open>debug.WriteHeapDump\<close> writes (the call returns nothing).
  \<^item> \<open>Seek_err\<close>, \<open>io_Copy_err\<close> (the bytes copied before the error, and the error),
    \<open>os_Remove_err\<close>, \<open>zip_Close_err\<close>: the errors of the calls whose result the
    source drops.
  \<^item> \<open>zip_bytes entries closed\<close>: the bytes of a zip stream holding \<open>entries\<close> (name and
    content, in the order of creation), with its central directory when \<open>closed\<close>.
\<close>

record platform =
  runtime_ReadMemStats :: MemStats
  debug_ReadGCStats :: GCStats
  debug_ReadBuildInfo :: "BuildInfo option"
  debug_Stack :: string
  runtime_NumGoroutine :: int
  os_Getpid :: int
  os_Getuid :: int
  os_Getgid :: int
  os_Environ :: "string list"
  os_Executable :: "string \<times> error"
  os_Getwd :: "string \<times> error"
  os_Hostname :: "string \<times> error"
  umask :: "32 word"
  os_OpenFile_err :: "string \<Rightarrow> error"
  zip_Create_err :: "string \<Rightarrow> error"
  json_Encode :: "string \<Rightarrow> string \<Rightarrow> Snapshot \<Rightarrow> string + string"
  pprof_WriteTo :: "string \<Rightarrow> int \<Rightarrow> string + string"
  os_CreateTemp_err :: error
  temp_file :: string
  heap_dump :: string
  Seek_err :: error
  io_Copy_err :: "(nat \<times> string) option"
  os_Remove_err :: error
  zip_Close_err :: error
  zip_bytes :: "(string \<times> string) list \<Rightarrow> bool \<Rightarrow> string"

section \<open>Collect\<close>

text \<open>
  \<open>Collect\<close> (snapshot.go, lines 33 to 52), here \<open>Collect_snapshot\<close>: \<open>Collect\<close> is the
  set comprehension of HOL. The named result \<open>s\<close> starts at its zero
  value. \<open>*buildInfo\<close> dereferences the pointer \<open>debug.ReadBuildInfo\<close> returned, with
  its \<open>ok\<close> dropped: on \<open>nil\<close> the Go runtime panics, before any later field is set.
  The three \<open>(string, error)\<close> calls have their error dropped and their string stored.
\<close>

definition nil_dereference :: string where
  "nil_dereference = ''runtime error: invalid memory address or nil pointer dereference''"

definition Collect_snapshot :: "platform \<Rightarrow> Snapshot outcome" where
  "Collect_snapshot p =
     (let s = zero_Snapshot;
          s = s\<lparr>Memory := runtime_ReadMemStats p\<rparr>;
          s = s\<lparr>GC := debug_ReadGCStats p\<rparr>;
          buildInfo = debug_ReadBuildInfo p
      in case buildInfo of
           None \<Rightarrow> Panics nil_dereference
         | Some b \<Rightarrow>
            (let s = s\<lparr>BuildInfo := b\<rparr>;
                 s = s\<lparr>Stack := debug_Stack p\<rparr>;
                 s = s\<lparr>NumGoRoutines := runtime_NumGoroutine p\<rparr>;
                 s = s\<lparr>Pid := os_Getpid p\<rparr>;
                 s = s\<lparr>Uid := os_Getuid p\<rparr>;
                 s = s\<lparr>Gid := os_Getgid p\<rparr>;
                 s = s\<lparr>Environ := os_Environ p\<rparr>;
                 exe = fst (os_Executable p);
                 s = s\<lparr>Executable := exe\<rparr>;
                 wd = fst (os_Getwd p);
                 s = s\<lparr>Wd := wd\<rparr>;
                 hostname = fst (os_Hostname p);
                 s = s\<lparr>Hostname := hostname\<rparr>
             in Returns s))"

section \<open>The calls Full makes\<close>

text \<open>
  The flags and the permission bits of package \<open>os\<close> (Linux values): \<open>O_WRONLY\<close>,
  \<open>O_CREATE\<close>, \<open>O_TRUNC\<close>, and \<open>ModePerm = 0777\<close> (octal).
\<close>

definition O_WRONLY :: int where "O_WRONLY = 0x1"
definition O_CREATE :: int where "O_CREATE = 0x40"
definition O_TRUNC :: int where "O_TRUNC = 0x200"
definition ModePerm :: "32 word" where "ModePerm = 0x1FF"

text \<open>
  \<open>os.OpenFile\<close>: the OS's refusal first; an existing file is emptied when \<open>O_TRUNC\<close>
  is set and keeps its mode; a missing one is created when \<open>O_CREATE\<close> is set, empty,
  with the permission bits the umask leaves. The handle is the path.
\<close>

definition os_OpenFile :: "platform \<Rightarrow> string \<Rightarrow> int \<Rightarrow> 32 word \<Rightarrow> fs \<Rightarrow> (string + string) \<times> fs" where
  "os_OpenFile p name flag perm fs =
     (case os_OpenFile_err p name of
        Some e \<Rightarrow> (Inl e, fs)
      | None \<Rightarrow>
         (case fs name of
            Some fl \<Rightarrow>
              (Inr name, if flag AND O_TRUNC \<noteq> 0 then fs(name \<mapsto> fl\<lparr>data := []\<rparr>) else fs)
          | None \<Rightarrow>
              if flag AND O_CREATE \<noteq> 0
              then (Inr name, fs(name \<mapsto> \<lparr>mode = perm AND NOT (umask p), data = []\<rparr>))
              else (Inl ''no such file or directory'', fs)))"

text \<open>
  \<open>zip.Writer\<close>: the file it writes to and the entries created so far. What the
  writer holds is written through to its file (\<open>zw_sync\<close>); the buffering between the
  two is not modelled, so the bytes of the file before \<open>zip_Close\<close> are an upper bound
  of what has reached it.
\<close>

record zip_Writer =
  zw_file :: string
  zw_entries :: "(string \<times> string) list"

definition zip_NewWriter :: "string \<Rightarrow> zip_Writer" where
  "zip_NewWriter f = \<lparr>zw_file = f, zw_entries = []\<rparr>"

definition zw_sync :: "platform \<Rightarrow> zip_Writer \<Rightarrow> bool \<Rightarrow> fs \<Rightarrow> fs" where
  "zw_sync p zw closed fs =
     (case fs (zw_file zw) of
        None \<Rightarrow> fs
      | Some fl \<Rightarrow> fs(zw_file zw \<mapsto> fl\<lparr>data := zip_bytes p (zw_entries zw) closed\<rparr>))"

text \<open>\<open>zw.Create(name)\<close>: a new, empty entry after the others; its writer is its index.\<close>

definition zip_Create :: "platform \<Rightarrow> string \<Rightarrow> zip_Writer \<Rightarrow> fs \<Rightarrow> (string + nat) \<times> zip_Writer \<times> fs" where
  "zip_Create p name zw fs =
     (case zip_Create_err p name of
        Some e \<Rightarrow> (Inl e, zw, fs)
      | None \<Rightarrow>
         (let zw' = zw\<lparr>zw_entries := zw_entries zw @ [(name, [])]\<rparr>
          in (Inr (length (zw_entries zw)), zw', zw_sync p zw' False fs)))"

text \<open>Writing bytes to the entry with index \<open>i\<close>.\<close>

definition entry_Write :: "platform \<Rightarrow> nat \<Rightarrow> string \<Rightarrow> zip_Writer \<Rightarrow> fs \<Rightarrow> zip_Writer \<times> fs" where
  "entry_Write p i bytes zw fs =
     (if i < length (zw_entries zw)
      then (let (name, old) = zw_entries zw ! i;
                zw' = zw\<lparr>zw_entries := (zw_entries zw)[i := (name, old @ bytes)]\<rparr>
            in (zw', zw_sync p zw' False fs))
      else (zw, fs))"

text \<open>\<open>zw.Close()\<close>: the central directory is written unless the call fails.\<close>

definition zip_Close :: "platform \<Rightarrow> zip_Writer \<Rightarrow> fs \<Rightarrow> error \<times> fs" where
  "zip_Close p zw fs =
     (case zip_Close_err p of
        Some e \<Rightarrow> (Some e, fs)
      | None \<Rightarrow> (None, zw_sync p zw True fs))"

text \<open>
  \<open>os.CreateTemp("", "dump")\<close>: a new empty file, mode 0600, at a path that does not
  exist yet; a path in use is the error the call gives when it finds no free name.
\<close>

definition os_CreateTemp :: "platform \<Rightarrow> fs \<Rightarrow> (string + string) \<times> fs" where
  "os_CreateTemp p fs =
     (case os_CreateTemp_err p of
        Some e \<Rightarrow> (Inl e, fs)
      | None \<Rightarrow>
         (case fs (temp_file p) of
            Some _ \<Rightarrow> (Inl ''file exists'', fs)
          | None \<Rightarrow> (Inr (temp_file p), fs(temp_file p \<mapsto> \<lparr>mode = 0x180, data = []\<rparr>))))"

text \<open>
  \<open>debug.WriteHeapDump(fd)\<close> returns nothing: the file gets the bytes the runtime
  wrote, and the offset of the descriptor is at their end.
\<close>

definition debug_WriteHeapDump :: "platform \<Rightarrow> string \<Rightarrow> fs \<Rightarrow> nat \<times> fs" where
  "debug_WriteHeapDump p tmp fs =
     (case fs tmp of
        None \<Rightarrow> (0, fs)
      | Some fl \<Rightarrow> (length (heap_dump p), fs(tmp \<mapsto> fl\<lparr>data := heap_dump p\<rparr>)))"

text \<open>\<open>tmpFile.Seek(0, 0)\<close>: the new offset; the old one when the call fails.\<close>

definition file_Seek :: "platform \<Rightarrow> nat \<Rightarrow> nat" where
  "file_Seek p off = (case Seek_err p of Some _ \<Rightarrow> off | None \<Rightarrow> 0)"

text \<open>
  \<open>io.Copy(dst, src)\<close>: the bytes of the source file from its offset on go to the
  entry; on an error, only those copied before it.
\<close>

definition io_Copy :: "platform \<Rightarrow> nat \<Rightarrow> string \<Rightarrow> nat \<Rightarrow> zip_Writer \<Rightarrow> fs \<Rightarrow> error \<times> zip_Writer \<times> fs" where
  "io_Copy p dst src off zw fs =
     (let bytes = (case fs src of None \<Rightarrow> [] | Some fl \<Rightarrow> drop off (data fl))
      in case io_Copy_err p of
           Some (n, e) \<Rightarrow> (let (zw', fs') = entry_Write p dst (take n bytes) zw fs in (Some e, zw', fs'))
         | None \<Rightarrow> (let (zw', fs') = entry_Write p dst bytes zw fs in (None, zw', fs')))"

text \<open>\<open>os.Remove(name)\<close>.\<close>

definition os_Remove :: "platform \<Rightarrow> string \<Rightarrow> fs \<Rightarrow> error \<times> fs" where
  "os_Remove p name fs =
     (case os_Remove_err p of
        Some e \<Rightarrow> (Some e, fs)
      | None \<Rightarrow> (None, fs(name := None)))"

section \<open>Full\<close>

text \<open>
  \<open>Full\<close> (snapshot.go, lines 64 to 111), statement by statement. Each checked error
  returns at once with its stage tag in front of the cause; the results of
  \<open>Seek\<close>, \<open>io.Copy\<close>, \<open>tmpFile.Close\<close>, \<open>os.Remove\<close> and \<open>zw.Close\<close> are dropped, as
  in the source. A panic of \<open>Collect\<close> leaves \<open>Full\<close> through the deferred
  \<open>f.Close()\<close>; closing a descriptor changes no file. What a failed \<open>Encode\<close> or
  \<open>WriteTo\<close> had already written to its entry is not modelled: the entry stays empty.
\<close>

definition Full :: "platform \<Rightarrow> string \<Rightarrow> fs \<Rightarrow> error outcome \<times> fs" where
  "Full p fileName fs =
     (case os_OpenFile p fileName (O_CREATE OR O_WRONLY OR O_TRUNC) ModePerm fs of
        (Inl err, fs) \<Rightarrow> (Returns (Some (''open: '' @ err)), fs)
      | (Inr f, fs) \<Rightarrow>
     (let zw = zip_NewWriter f in
      case Collect_snapshot p of
        Panics msg \<Rightarrow> (Panics msg, fs)
      | Returns sn \<Rightarrow>
     (case zip_Create p ''snapshot.json'' zw fs of
        (Inl err, zw, fs) \<Rightarrow> (Returns (Some (''snapshot: '' @ err)), fs)
      | (Inr snapshotFile, zw, fs) \<Rightarrow>
     (case json_Encode p [] ''    '' sn of
        Inl err \<Rightarrow> (Returns (Some (''snapshot: '' @ err)), fs)
      | Inr js \<Rightarrow>
     (let (zw, fs) = entry_Write p snapshotFile js zw fs in
      case zip_Create p ''stack.txt'' zw fs of
        (Inl err, zw, fs) \<Rightarrow> (Returns (Some (''trace: '' @ err)), fs)
      | (Inr traceFile, zw, fs) \<Rightarrow>
     (case pprof_WriteTo p ''goroutine'' 1 of
        Inl err \<Rightarrow> (Returns (Some (''trace: '' @ err)), fs)
      | Inr trace \<Rightarrow>
     (let (zw, fs) = entry_Write p traceFile trace zw fs in
      case os_CreateTemp p fs of
        (Inl err, fs) \<Rightarrow> (Returns (Some (''dump: '' @ err)), fs)
      | (Inr tmpFile, fs) \<Rightarrow>
     (let (off, fs) = debug_WriteHeapDump p tmpFile fs;
          off = file_Seek p off
      in
      case zip_Create p ''heap.bin'' zw fs of
        (Inl err, zw, fs) \<Rightarrow> (Returns (Some (''dump: '' @ err)), fs)
      | (Inr dumpFile, zw, fs) \<Rightarrow>
     (let (copy_err, zw, fs) = io_Copy p dumpFile tmpFile off zw fs;
          (remove_err, fs) = os_Remove p tmpFile fs;
          (close_err, fs) = zip_Close p zw fs
      in (Returns None, fs))))))))))"

section \<open>Concrete platforms\<close>

text \<open>
  A platform on which every call succeeds, and an empty file system; the failing
  platforms below differ from it in one answer.
\<close>

definition build0 :: BuildInfo where
  "build0 =
     \<lparr>GoVersion = ''go1.21.0'', Path = ''example.com/app'',
      MainModule = Module ''example.com/app'' ''v1.0.0'' [] None, Deps = [], Settings = []\<rparr>"

definition zip0 :: "(string \<times> string) list \<Rightarrow> bool \<Rightarrow> string" where
  "zip0 es closed = concat (map (\<lambda>(n, d). ''['' @ n @ '':'' @ d @ '']'') es) @ (if closed then ''.'' else [])"

definition p0 :: platform where
  "p0 =
     \<lparr>runtime_ReadMemStats = MemStats [1, 2], debug_ReadGCStats = GCStats [3],
      debug_ReadBuildInfo = Some build0, debug_Stack = ''goroutine 1 [running]'',
      runtime_NumGoroutine = 2, os_Getpid = 100, os_Getuid = 1000, os_Getgid = 1000,
      os_Environ = [''HOME=/root''], os_Executable = (''/bin/app'', None),
      os_Getwd = (''/srv'', None), os_Hostname = (''host'', None), umask = 0x12,
      os_OpenFile_err = (\<lambda>_. None), zip_Create_err = (\<lambda>_. None),
      json_Encode = (\<lambda>_ _ _. Inr ''{}''),
      pprof_WriteTo =
        (\<lambda>_ d. Inr (if d = 1 then ''goroutine profile: total 2''
                              else if d = 2 then ''goroutine 1 [running]: goroutine 2 [chan receive]:''
                              else ''pb'')),
      os_CreateTemp_err = None, temp_file = ''/tmp/dump1'', heap_dump = ''HEAP'',
      Seek_err = None, io_Copy_err = None, os_Remove_err = None, zip_Close_err = None,
      zip_bytes = zip0\<rparr>"

definition fs0 :: fs where
  "fs0 = Map.empty"

section \<open>Evaluation facts\<close>

lemmas call_defs = zip_NewWriter_def zip_Create_def zw_sync_def entry_Write_def
  os_CreateTemp_def debug_WriteHeapDump_def file_Seek_def io_Copy_def os_Remove_def zip_Close_def

lemmas p0_defs = p0_def fs0_def build0_def zip0_def

lemma open_flags:
  "(O_CREATE OR O_WRONLY OR O_TRUNC) AND O_TRUNC \<noteq> 0"
  "(O_CREATE OR O_WRONLY OR O_TRUNC) AND O_CREATE \<noteq> 0"
  by (simp_all add: O_CREATE_def O_WRONLY_def O_TRUNC_def)

text \<open>The one call of \<open>os.OpenFile\<close> that \<open>Full\<close> makes, when the OS does not refuse it.\<close>

lemma os_OpenFile_ok:
  "os_OpenFile_err p name = None \<Longrightarrow>
   os_OpenFile p name (O_CREATE OR O_WRONLY OR O_TRUNC) ModePerm fs =
     (Inr name,
      fs(name \<mapsto> (case fs name of
                     None \<Rightarrow> \<lparr>mode = ModePerm AND NOT (umask p), data = []\<rparr>
                   | Some fl \<Rightarrow> fl\<lparr>data := []\<rparr>)))"
  by (simp add: os_OpenFile_def open_flags split: option.splits)

text \<open>With build information, \<open>Collect\<close> returns the record of the platform's answers.\<close>

lemma Collect_with_build_info:
  "debug_ReadBuildInfo p = Some b \<Longrightarrow>
   Collect_snapshot p = Returns
     \<lparr>Memory = runtime_ReadMemStats p, GC = debug_ReadGCStats p, Stack = debug_Stack p,
      BuildInfo = b, NumGoRoutines = runtime_NumGoroutine p, Pid = os_Getpid p,
      Uid = os_Getuid p, Gid = os_Getgid p, Environ = os_Environ p,
      Executable = fst (os_Executable p), Wd = fst (os_Getwd p),
      Hostname = fst (os_Hostname p)\<rparr>"
  by (simp add: Collect_snapshot_def zero_Snapshot_def)

lemma Collect_Returns_iff:
  "(\<exists>s. Collect_snapshot p = Returns s) \<longleftrightarrow> debug_ReadBuildInfo p \<noteq> None"
  by (auto simp add: Collect_snapshot_def Let_def split: option.splits)

text \<open>
  The archive and the temporary file after a call in which nothing failed: three
  entries in the order of creation, the central directory written, the temporary file
  gone.
\<close>

lemma Full_nothing_fails:
  assumes "os_OpenFile_err p fileName = None"
      and "Collect_snapshot p = Returns sn"
      and "zip_Create_err p ''snapshot.json'' = None"
      and "json_Encode p [] ''    '' sn = Inr js"
      and "zip_Create_err p ''stack.txt'' = None"
      and "pprof_WriteTo p ''goroutine'' 1 = Inr tr"
      and "os_CreateTemp_err p = None"
      and "temp_file p \<noteq> fileName"
      and "fs (temp_file p) = None"
      and "zip_Create_err p ''heap.bin'' = None"
      and "Seek_err p = None"
      and "io_Copy_err p = None"
      and "os_Remove_err p = None"
      and "zip_Close_err p = None"
  shows "fst (Full p fileName fs) = Returns None"
    and "map_option data (snd (Full p fileName fs) fileName) =
           Some (zip_bytes p
             [(''snapshot.json'', js), (''stack.txt'', tr), (''heap.bin'', heap_dump p)] True)"
    and "snd (Full p fileName fs) (temp_file p) = None"
  using assms
  by (simp_all add: Full_def os_OpenFile_ok call_defs Let_def split: option.split)

text \<open>
  The archive after any call that returns \<open>nil\<close>: \<open>heap.bin\<close> holds what \<open>io.Copy\<close>
  moved before it stopped, and the central directory is there only if \<open>zw.Close\<close> did
  not fail.
\<close>

lemma Full_nil_archive:
  assumes "os_OpenFile_err p fileName = None"
      and "Collect_snapshot p = Returns sn"
      and "json_Encode p [] ''    '' sn = Inr js"
      and "pprof_WriteTo p ''goroutine'' 1 = Inr tr"
  shows "fst (Full p fileName fs) = Returns None \<longrightarrow>
         map_option data (snd (Full p fileName fs) fileName) =
           Some (zip_bytes p
             [(''snapshot.json'', js), (''stack.txt'', tr),
              (''heap.bin'',
                 (let src = drop (file_Seek p (length (heap_dump p))) (heap_dump p)
                  in case io_Copy_err p of None \<Rightarrow> src | Some (n, e) \<Rightarrow> take n src))]
             (zip_Close_err p = None))"
  using assms
  by (simp add: Full_def os_OpenFile_ok call_defs Let_def split: option.split prod.split)

text \<open>On the return with \<open>nil\<close>, \<open>os.Remove\<close> has run: the temporary file is gone unless the removal itself failed.\<close>

lemma Full_nil_removes_temp_file:
  assumes "os_Remove_err p = None"
  shows "fst (Full p fileName fs) = Returns None \<longrightarrow> snd (Full p fileName fs) (temp_file p) = None"
  using assms
  by (simp add: Full_def os_OpenFile_def open_flags Collect_snapshot_def call_defs Let_def
        split: option.split prod.split sum.split)

lemmas Full_eval = Full_def os_OpenFile_def open_flags ModePerm_def Collect_snapshot_def zero_Snapshot_def
  call_defs Let_def p0_defs

section \<open>Collect\<close>

text \<open>
  C1. The claim: \<open>Collect\<close> returns a record in every environment and never crashes;
  a failed lookup (build metadata, hostname, working directory, executable path) leaves
  its field empty. On a platform whose \<open>debug.ReadBuildInfo\<close> answers \<open>(nil, false)\<close>,
  the dereference \<open>*buildInfo\<close> panics: \<open>Collect\<close> returns no record there.
\<close>

theorem Collect_panics_without_build_info:
  "Collect_snapshot (p0\<lparr>debug_ReadBuildInfo := None\<rparr>) = Panics nil_dereference"
  by (simp add: Collect_snapshot_def p0_def)

text \<open>
  C9. Two calls of \<open>Collect\<close> between which the process identity did not change (the
  platform answers the same pid, uid, gid, executable, working directory, hostname and
  build information) return records that agree on \<open>Pid\<close>, \<open>Uid\<close>, \<open>Gid\<close>,
  \<open>Executable\<close>, \<open>Wd\<close>, \<open>Hostname\<close> and \<open>BuildInfo\<close>; nothing is asked of the
  counters (memory, GC, goroutines), which may differ.
\<close>

theorem Collect_identity_fields_agree:
  assumes "os_Getpid p = os_Getpid p'"
      and "os_Getuid p = os_Getuid p'"
      and "os_Getgid p = os_Getgid p'"
      and "os_Executable p = os_Executable p'"
      and "os_Getwd p = os_Getwd p'"
      and "os_Hostname p = os_Hostname p'"
      and "debug_ReadBuildInfo p = debug_ReadBuildInfo p'"
      and "Collect_snapshot p = Returns s"
      and "Collect_snapshot p' = Returns s'"
  shows "Pid s = Pid s' \<and> Uid s = Uid s' \<and> Gid s = Gid s' \<and> Executable s = Executable s'
         \<and> Wd s = Wd s' \<and> Hostname s = Hostname s' \<and> BuildInfo s = BuildInfo s'"
proof (cases "debug_ReadBuildInfo p")
  case None
  with assms(8) show ?thesis
    by (simp add: Collect_snapshot_def)
next
  case (Some b)
  with assms(7) have b': "debug_ReadBuildInfo p' = Some b"
    by simp
  from Collect_with_build_info [OF Some] assms(8)
  have s: "s = \<lparr>Memory = runtime_ReadMemStats p, GC = debug_ReadGCStats p, Stack = debug_Stack p,
      BuildInfo = b, NumGoRoutines = runtime_NumGoroutine p, Pid = os_Getpid p,
      Uid = os_Getuid p, Gid = os_Getgid p, Environ = os_Environ p,
      Executable = fst (os_Executable p), Wd = fst (os_Getwd p),
      Hostname = fst (os_Hostname p)\<rparr>"
    by simp
  from Collect_with_build_info [OF b'] assms(9)
  have s': "s' = \<lparr>Memory = runtime_ReadMemStats p', GC = debug_ReadGCStats p', Stack = debug_Stack p',
      BuildInfo = b, NumGoRoutines = runtime_NumGoroutine p', Pid = os_Getpid p',
      Uid = os_Getuid p', Gid = os_Getgid p', Environ = os_Environ p',
      Executable = fst (os_Executable p'), Wd = fst (os_Getwd p'),
      Hostname = fst (os_Hostname p')\<rparr>"
    by simp
  show ?thesis
    unfolding s s' using assms(1-6) by simp
qed

theorem Collect_identity_fields_agree_witness:
  "\<exists>s s'. Collect_snapshot p0 = Returns s
     \<and> Collect_snapshot (p0\<lparr>runtime_ReadMemStats := MemStats [7, 8], debug_ReadGCStats := GCStats [9],
                    runtime_NumGoroutine := 5\<rparr>) = Returns s'
     \<and> Pid s = Pid s' \<and> Uid s = Uid s' \<and> Gid s = Gid s' \<and> Executable s = Executable s'
     \<and> Wd s = Wd s' \<and> Hostname s = Hostname s' \<and> BuildInfo s = BuildInfo s'
     \<and> Memory s \<noteq> Memory s' \<and> GC s \<noteq> GC s' \<and> NumGoRoutines s \<noteq> NumGoRoutines s'"
proof -
  let ?p' = "p0\<lparr>runtime_ReadMemStats := MemStats [7, 8], debug_ReadGCStats := GCStats [9],
                 runtime_NumGoroutine := 5\<rparr>"
  have b: "debug_ReadBuildInfo p0 = Some build0" "debug_ReadBuildInfo ?p' = Some build0"
    by (simp_all add: p0_def)
  note c = Collect_with_build_info [OF b(1)] and c' = Collect_with_build_info [OF b(2)]
  have same: "os_Getpid p0 = os_Getpid ?p'" "os_Getuid p0 = os_Getuid ?p'"
    "os_Getgid p0 = os_Getgid ?p'" "os_Executable p0 = os_Executable ?p'"
    "os_Getwd p0 = os_Getwd ?p'" "os_Hostname p0 = os_Hostname ?p'"
    "debug_ReadBuildInfo p0 = debug_ReadBuildInfo ?p'"
    by simp_all
  note agree = Collect_identity_fields_agree [OF same c c']
  have differ: "runtime_ReadMemStats p0 \<noteq> MemStats [7, 8]" "debug_ReadGCStats p0 \<noteq> GCStats [9]"
    "runtime_NumGoroutine p0 \<noteq> 5"
    by (simp_all add: p0_def)
  show ?thesis
    apply (rule exI, rule exI)
    apply (rule conjI, rule c)
    apply (rule conjI, rule c')
    using agree differ apply simp
    done
qed

section \<open>Full: opening the archive file\<close>

text \<open>
  C8. When the OS refuses to open the path for writing (its parent directory does not
  exist, or the caller may not write there), \<open>Full\<close> returns the error
  \<open>open: <cause>\<close>, the cause being the message of the I/O error, and leaves the file
  system as it was: no file is created at the path.
\<close>

theorem Full_open_error:
  assumes "os_OpenFile_err p fileName = Some e"
  shows "Full p fileName fs = (Returns (Some (''open: '' @ e)), fs)"
  using assms by (simp add: Full_def os_OpenFile_def)

theorem Full_open_error_witness:
  "Full (p0\<lparr>os_OpenFile_err := (\<lambda>n. if n = ''/missing/out.zip''
                                        then Some ''open /missing/out.zip: no such file or directory''
                                        else None)\<rparr>) ''/missing/out.zip'' fs0 =
     (Returns (Some ''open: open /missing/out.zip: no such file or directory''), fs0)
   \<and> fs0 ''/missing/out.zip'' = None"
  using Full_open_error [of
      "p0\<lparr>os_OpenFile_err := (\<lambda>n. if n = ''/missing/out.zip''
                                      then Some ''open /missing/out.zip: no such file or directory''
                                      else None)\<rparr>"
      "''/missing/out.zip''" "''open /missing/out.zip: no such file or directory''" fs0]
  by (simp add: fs0_def)

text \<open>
  C10. \<open>Full\<close> opens the archive file with \<open>O_CREATE|O_WRONLY|O_TRUNC\<close> and
  \<open>os.ModePerm\<close> (0777). So, whenever the OS does not refuse the open: a call onto an
  existing file does what it does onto the same file emptied, and the file keeps its
  mode; a file that did not exist is created with mode 0777 less the umask; and after a
  call that returns \<open>nil\<close> the bytes of the file are those of the new archive.
\<close>

theorem Full_creates_or_truncates:
  assumes "os_OpenFile_err p fileName = None"
  shows "Full p fileName (fs(fileName \<mapsto> fl)) = Full p fileName (fs(fileName \<mapsto> fl\<lparr>data := []\<rparr>))
       \<and> map_option mode (snd (Full p fileName (fs(fileName \<mapsto> fl))) fileName) = Some (mode fl)
       \<and> (fs fileName = None \<longrightarrow>
            map_option mode (snd (Full p fileName fs) fileName) = Some (0x1FF AND NOT (umask p)))
       \<and> (fst (Full p fileName fs) = Returns None \<longrightarrow>
            (\<exists>js tr hp c. map_option data (snd (Full p fileName fs) fileName) =
               Some (zip_bytes p [(''snapshot.json'', js), (''stack.txt'', tr), (''heap.bin'', hp)] c)))"
proof (intro conjI impI)
  show "Full p fileName (fs(fileName \<mapsto> fl)) = Full p fileName (fs(fileName \<mapsto> fl\<lparr>data := []\<rparr>))"
    using assms by (simp add: Full_def os_OpenFile_ok)
  show "map_option mode (snd (Full p fileName (fs(fileName \<mapsto> fl))) fileName) = Some (mode fl)"
    using assms
    by (simp add: Full_def os_OpenFile_ok Collect_snapshot_def call_defs Let_def
          split: option.split prod.split sum.split)
next
  assume "fs fileName = None"
  with assms have "map_option mode (snd (Full p fileName fs) fileName) = Some (ModePerm AND NOT (umask p))"
    by (simp add: Full_def os_OpenFile_ok Collect_snapshot_def call_defs Let_def
          split: option.split prod.split sum.split)
  then show "map_option mode (snd (Full p fileName fs) fileName) = Some (0x1FF AND NOT (umask p))"
    by (simp add: ModePerm_def)
next
  assume nil: "fst (Full p fileName fs) = Returns None"
  obtain sn where sn: "Collect_snapshot p = Returns sn"
    using nil assms by (cases "Collect_snapshot p") (simp_all add: Full_def os_OpenFile_ok)
  obtain js where js: "json_Encode p [] ''    '' sn = Inr js"
    using nil assms sn
    by (cases "json_Encode p [] ''    '' sn")
       (simp_all add: Full_def os_OpenFile_ok call_defs Let_def split: option.splits)
  obtain tr where tr: "pprof_WriteTo p ''goroutine'' 1 = Inr tr"
    using nil assms sn js
    by (cases "pprof_WriteTo p ''goroutine'' 1")
       (simp_all add: Full_def os_OpenFile_ok call_defs Let_def split: option.splits)
  from Full_nil_archive [OF assms sn js tr] nil
  show "\<exists>js tr hp c. map_option data (snd (Full p fileName fs) fileName) =
          Some (zip_bytes p [(''snapshot.json'', js), (''stack.txt'', tr), (''heap.bin'', hp)] c)"
    by blast
qed


theorem Full_creates_or_truncates_witness:
  "snd (Full p0 ''out.zip'' fs0) ''out.zip'' =
     Some \<lparr>mode = 0x1ED, data = ''[snapshot.json:{}][stack.txt:goroutine profile: total 2][heap.bin:HEAP].''\<rparr>
   \<and> snd (Full p0 ''out.zip'' (fs0(''out.zip'' \<mapsto> \<lparr>mode = 0x1A4, data = ''old bytes''\<rparr>))) ''out.zip'' =
     Some \<lparr>mode = 0x1A4, data = ''[snapshot.json:{}][stack.txt:goroutine profile: total 2][heap.bin:HEAP].''\<rparr>"
proof -
  let ?old = "\<lparr>mode = 0x1A4, data = ''old bytes''\<rparr>"
  let ?new = "''[snapshot.json:{}][stack.txt:goroutine profile: total 2][heap.bin:HEAP].''"
  have ok: "os_OpenFile_err p0 ''out.zip'' = None"
    by (simp add: p0_def)
  have absent: "fs0 ''out.zip'' = None"
    by (simp add: fs0_def)
  note t = Full_creates_or_truncates [OF ok, of fs0 ?old]
  from t have same: "Full p0 ''out.zip'' (fs0(''out.zip'' \<mapsto> ?old)) =
      Full p0 ''out.zip'' (fs0(''out.zip'' \<mapsto> ?old\<lparr>data := []\<rparr>))"
    by (rule conjunct1)
  from t have kept: "map_option mode (snd (Full p0 ''out.zip'' (fs0(''out.zip'' \<mapsto> ?old))) ''out.zip'') =
      Some (mode ?old)"
    by (rule conjunct2 [THEN conjunct1])
  from t absent have created: "map_option mode (snd (Full p0 ''out.zip'' fs0) ''out.zip'') =
      Some (0x1FF AND NOT (umask p0))"
    by (simp only:)
  have d0: "map_option data (snd (Full p0 ''out.zip'' fs0) ''out.zip'') = Some ?new"
    by (simp add: Full_eval)
  have d1: "map_option data (snd (Full p0 ''out.zip'' (fs0(''out.zip'' \<mapsto> ?old\<lparr>data := []\<rparr>))) ''out.zip'') =
      Some ?new"
    by (simp add: Full_eval)
  have u: "(0x1FF :: 32 word) AND NOT (umask p0) = 0x1ED"
    by (simp add: p0_def)
  from created d0 u have "snd (Full p0 ''out.zip'' fs0) ''out.zip'' = Some \<lparr>mode = 0x1ED, data = ?new\<rparr>"
    by (cases "snd (Full p0 ''out.zip'' fs0) ''out.zip''") auto
  moreover from kept d1 same
  have "snd (Full p0 ''out.zip'' (fs0(''out.zip'' \<mapsto> ?old))) ''out.zip'' = Some \<lparr>mode = 0x1A4, data = ?new\<rparr>"
    by (cases "snd (Full p0 ''out.zip'' (fs0(''out.zip'' \<mapsto> ?old))) ''out.zip''") auto
  ultimately show ?thesis
    by (rule conjI)
qed

section \<open>Full: the stages and their errors\<close>

text \<open>
  Every error \<open>Full\<close> returns starts with one of the four stage tags.
\<close>

lemma Full_error_tagged:
  "case fst (Full p fileName fs) of
     Returns (Some m) \<Rightarrow>
       take 6 m = ''open: '' \<or> take 10 m = ''snapshot: '' \<or> take 7 m = ''trace: '' \<or> take 6 m = ''dump: ''
   | _ \<Rightarrow> True"
proof (cases "os_OpenFile_err p fileName")
  case (Some e)
  then show ?thesis
    by (simp add: Full_def os_OpenFile_def)
next
  case None
  then show ?thesis
    by (simp add: Full_def os_OpenFile_ok call_defs Let_def
          split: option.split prod.split sum.split outcome.split)
qed

text \<open>
  The two checked calls of the heap-dump stage: \<open>os.CreateTemp\<close> and the creation of
  the entry \<open>heap.bin\<close>.
\<close>

lemma Full_dump_stage_errors:
  assumes "os_OpenFile_err p fileName = None"
      and "Collect_snapshot p = Returns sn"
      and "zip_Create_err p ''snapshot.json'' = None"
      and "json_Encode p [] ''    '' sn = Inr js"
      and "zip_Create_err p ''stack.txt'' = None"
      and "pprof_WriteTo p ''goroutine'' 1 = Inr tr"
  shows "os_CreateTemp_err p = Some e \<longrightarrow> fst (Full p fileName fs) = Returns (Some (''dump: '' @ e))"
    and "os_CreateTemp_err p = None \<and> temp_file p \<noteq> fileName \<and> fs (temp_file p) = None
           \<and> zip_Create_err p ''heap.bin'' = Some e \<longrightarrow>
         fst (Full p fileName fs) = Returns (Some (''dump: '' @ e))"
  using assms
  by (simp_all add: Full_def os_OpenFile_ok call_defs Let_def)

text \<open>
  C5, as amended. \<open>Full\<close> writes the goroutine profile with \<open>WriteTo(traceFile, 1)\<close>:
  debug level 1, the text form of pprof in which goroutines with the same stack are
  counted together, and not level 2, the form that prints every goroutine as an
  unrecovered panic does. When the stage is reached (the file is open, \<open>Collect\<close> has
  returned, \<open>snapshot.json\<close> is written): an error of creating the entry \<open>stack.txt\<close>
  or of writing the profile is returned with the tag \<open>trace\<close>, and after a call that
  returns \<open>nil\<close> the entry \<open>stack.txt\<close> of the archive holds the level-1 text.
\<close>

theorem Full_trace_stage:
  assumes "os_OpenFile_err p fileName = None"
      and "Collect_snapshot p = Returns sn"
      and "zip_Create_err p ''snapshot.json'' = None"
      and "json_Encode p [] ''    '' sn = Inr js"
  shows "(\<forall>e. zip_Create_err p ''stack.txt'' = Some e \<longrightarrow>
            fst (Full p fileName fs) = Returns (Some (''trace: '' @ e)))
       \<and> (\<forall>e. zip_Create_err p ''stack.txt'' = None \<and> pprof_WriteTo p ''goroutine'' 1 = Inl e \<longrightarrow>
            fst (Full p fileName fs) = Returns (Some (''trace: '' @ e)))
       \<and> (\<forall>tr. pprof_WriteTo p ''goroutine'' 1 = Inr tr \<and> fst (Full p fileName fs) = Returns None \<longrightarrow>
            (\<exists>hp c. map_option data (snd (Full p fileName fs) fileName) =
               Some (zip_bytes p [(''snapshot.json'', js), (''stack.txt'', tr), (''heap.bin'', hp)] c)))"
proof (intro conjI allI impI)
  fix e
  assume "zip_Create_err p ''stack.txt'' = Some e"
  with assms show "fst (Full p fileName fs) = Returns (Some (''trace: '' @ e))"
    by (simp add: Full_def os_OpenFile_ok call_defs Let_def)
next
  fix e
  assume "zip_Create_err p ''stack.txt'' = None \<and> pprof_WriteTo p ''goroutine'' 1 = Inl e"
  with assms show "fst (Full p fileName fs) = Returns (Some (''trace: '' @ e))"
    by (simp add: Full_def os_OpenFile_ok call_defs Let_def)
next
  fix tr
  assume "pprof_WriteTo p ''goroutine'' 1 = Inr tr \<and> fst (Full p fileName fs) = Returns None"
  then have tr: "pprof_WriteTo p ''goroutine'' 1 = Inr tr" and nil: "fst (Full p fileName fs) = Returns None"
    by simp_all
  from Full_nil_archive [OF assms(1) assms(2) assms(4) tr] nil
  show "\<exists>hp c. map_option data (snd (Full p fileName fs) fileName) =
          Some (zip_bytes p [(''snapshot.json'', js), (''stack.txt'', tr), (''heap.bin'', hp)] c)"
    by blast
qed

theorem Full_trace_stage_witness:
  "fst (Full (p0\<lparr>zip_Create_err := (\<lambda>n. if n = ''stack.txt'' then Some ''write out.zip: input/output error'' else None)\<rparr>)
          ''out.zip'' fs0) = Returns (Some ''trace: write out.zip: input/output error'')
   \<and> fst (Full (p0\<lparr>pprof_WriteTo := (\<lambda>n d. Inl ''write out.zip: input/output error'')\<rparr>)
          ''out.zip'' fs0) = Returns (Some ''trace: write out.zip: input/output error'')
   \<and> (\<exists>hp c. map_option data (snd (Full p0 ''out.zip'' fs0) ''out.zip'') =
         Some (zip_bytes p0 [(''snapshot.json'', ''{}''), (''stack.txt'', ''goroutine profile: total 2''),
                             (''heap.bin'', hp)] c))"
proof -
  let ?p1 = "p0\<lparr>zip_Create_err := (\<lambda>n. if n = ''stack.txt'' then Some ''write out.zip: input/output error'' else None)\<rparr>"
  let ?p2 = "p0\<lparr>pprof_WriteTo := (\<lambda>n d. Inl ''write out.zip: input/output error'')\<rparr>"
  have b: "debug_ReadBuildInfo p0 = Some build0" "debug_ReadBuildInfo ?p1 = Some build0"
    "debug_ReadBuildInfo ?p2 = Some build0"
    by (simp_all add: p0_def)
  have h0: "os_OpenFile_err p0 ''out.zip'' = None" "zip_Create_err p0 ''snapshot.json'' = None"
    "\<And>sn. json_Encode p0 [] ''    '' sn = Inr ''{}''"
    by (simp_all add: p0_def)
  have h1: "os_OpenFile_err ?p1 ''out.zip'' = None" "zip_Create_err ?p1 ''snapshot.json'' = None"
    "\<And>sn. json_Encode ?p1 [] ''    '' sn = Inr ''{}''"
    by (simp_all add: p0_def)
  have h2: "os_OpenFile_err ?p2 ''out.zip'' = None" "zip_Create_err ?p2 ''snapshot.json'' = None"
    "\<And>sn. json_Encode ?p2 [] ''    '' sn = Inr ''{}''"
    by (simp_all add: p0_def)
  note t0 = Full_trace_stage [OF h0(1) Collect_with_build_info [OF b(1)] h0(2) h0(3), where fs = fs0]
  note t1 = Full_trace_stage [OF h1(1) Collect_with_build_info [OF b(2)] h1(2) h1(3), where fs = fs0]
  note t2 = Full_trace_stage [OF h2(1) Collect_with_build_info [OF b(3)] h2(2) h2(3), where fs = fs0]
  have "zip_Create_err ?p1 ''stack.txt'' = Some ''write out.zip: input/output error''"
    by simp
  with t1 have a: "fst (Full ?p1 ''out.zip'' fs0) = Returns (Some ''trace: write out.zip: input/output error'')"
    by simp
  have "zip_Create_err ?p2 ''stack.txt'' = None \<and> pprof_WriteTo ?p2 ''goroutine'' 1 = Inl ''write out.zip: input/output error''"
    by (simp add: p0_def)
  with t2 have b2: "fst (Full ?p2 ''out.zip'' fs0) = Returns (Some ''trace: write out.zip: input/output error'')"
    by simp
  have "pprof_WriteTo p0 ''goroutine'' 1 = Inr ''goroutine profile: total 2'' \<and> fst (Full p0 ''out.zip'' fs0) = Returns None"
    by (simp add: Full_eval)
  with t0 have c: "\<exists>hp c. map_option data (snd (Full p0 ''out.zip'' fs0) ''out.zip'') =
         Some (zip_bytes p0 [(''snapshot.json'', ''{}''), (''stack.txt'', ''goroutine profile: total 2''),
                             (''heap.bin'', hp)] c)"
    by blast
  from a b2 c show ?thesis
    by (intro conjI)
qed

text \<open>
  C5 as stated asks for the full-verbosity dump of every goroutine, which pprof writes
  at debug level 2. On the platform \<open>p0\<close> the two levels give different texts, and
  the archive holds the level-1 text, not the level-2 text.
\<close>

theorem stack_txt_is_not_the_level_2_dump:
  "fst (Full p0 ''out.zip'' fs0) = Returns None
   \<and> pprof_WriteTo p0 ''goroutine'' 1 = Inr ''goroutine profile: total 2''
   \<and> pprof_WriteTo p0 ''goroutine'' 2 = Inr ''goroutine 1 [running]: goroutine 2 [chan receive]:''
   \<and> map_option data (snd (Full p0 ''out.zip'' fs0) ''out.zip'') =
       Some (zip_bytes p0 [(''snapshot.json'', ''{}''), (''stack.txt'', ''goroutine profile: total 2''),
                           (''heap.bin'', ''HEAP'')] True)
   \<and> map_option data (snd (Full p0 ''out.zip'' fs0) ''out.zip'') \<noteq>
       Some (zip_bytes p0 [(''snapshot.json'', ''{}''),
                           (''stack.txt'', ''goroutine 1 [running]: goroutine 2 [chan receive]:''),
                           (''heap.bin'', ''HEAP'')] True)"
  by (simp add: Full_eval)

section \<open>Full: the results it drops\<close>

text \<open>
  C2. The claim: once the heap-dump stage is reached, the temporary file is removed on
  every return path. When creating the entry \<open>heap.bin\<close> fails (snapshot.go, lines 100
  to 103), \<open>Full\<close> returns the \<open>dump\<close> error before \<open>os.Remove\<close>: the temporary file,
  absent before the call, is in the file system after it, with the heap dump in it.
\<close>

theorem Full_leaves_temp_file_on_entry_error:
  "fst (Full (p0\<lparr>zip_Create_err := (\<lambda>n. if n = ''heap.bin'' then Some ''write out.zip: no space left on device'' else None)\<rparr>)
          ''out.zip'' fs0) = Returns (Some ''dump: write out.zip: no space left on device'')
   \<and> snd (Full (p0\<lparr>zip_Create_err := (\<lambda>n. if n = ''heap.bin'' then Some ''write out.zip: no space left on device'' else None)\<rparr>)
          ''out.zip'' fs0) ''/tmp/dump1'' = Some \<lparr>mode = 0x180, data = ''HEAP''\<rparr>
   \<and> fs0 ''/tmp/dump1'' = None"
  by (simp add: Full_eval)

text \<open>
  C3. The claim: \<open>Full\<close> returns a \<open>dump\<close> error if and only if a step of the heap-dump
  stage fails, copying included. The result of \<open>io.Copy\<close> is dropped (snapshot.go, line
  105): when the copy stops with an error after two bytes, \<open>Full\<close> returns \<open>nil\<close>.
\<close>

theorem Full_nil_on_copy_error:
  "fst (io_Copy (p0\<lparr>io_Copy_err := Some (2, ''write out.zip: no space left on device'')\<rparr>) 0 ''/tmp/dump1'' 0
          \<lparr>zw_file = ''out.zip'', zw_entries = [(''heap.bin'', [])]\<rparr>
          [''/tmp/dump1'' \<mapsto> \<lparr>mode = 0x180, data = ''HEAP''\<rparr>]) =
     Some ''write out.zip: no space left on device''
   \<and> fst (Full (p0\<lparr>io_Copy_err := Some (2, ''write out.zip: no space left on device'')\<rparr>) ''out.zip'' fs0) =
     Returns None"
  by (simp add: Full_eval)

text \<open>
  C4. The claim: whenever a stage fails, closing the archive included, \<open>Full\<close> returns a
  tagged error, and it returns \<open>nil\<close> only when every stage succeeded. The result of
  \<open>zw.Close()\<close> is dropped (snapshot.go, line 109): when it fails, \<open>Full\<close> returns
  \<open>nil\<close> and the file holds a zip stream without its central directory.
\<close>

theorem Full_nil_on_close_error:
  "fst (zip_Close (p0\<lparr>zip_Close_err := Some ''write out.zip: no space left on device''\<rparr>)
          \<lparr>zw_file = ''out.zip'', zw_entries = []\<rparr> fs0) = Some ''write out.zip: no space left on device''
   \<and> fst (Full (p0\<lparr>zip_Close_err := Some ''write out.zip: no space left on device''\<rparr>) ''out.zip'' fs0) =
     Returns None
   \<and> map_option data (snd (Full (p0\<lparr>zip_Close_err := Some ''write out.zip: no space left on device''\<rparr>) ''out.zip'' fs0)
        ''out.zip'') =
     Some (zip0 [(''snapshot.json'', ''{}''), (''stack.txt'', ''goroutine profile: total 2''),
                 (''heap.bin'', ''HEAP'')] False)"
  by (simp add: Full_eval)

text \<open>
  C6. The claim: after every call that returns \<open>nil\<close>, the archive has the three entries,
  each of non-zero size. When \<open>io.Copy\<close> fails before its first byte, \<open>Full\<close> still
  returns \<open>nil\<close>, and the entry \<open>heap.bin\<close> of the archive is empty. (When nothing
  fails, the archive is as claimed: \<open>Full_nothing_fails\<close>.)
\<close>

theorem Full_nil_with_empty_heap_entry:
  "fst (Full (p0\<lparr>io_Copy_err := Some (0, ''read /tmp/dump1: input/output error'')\<rparr>) ''out.zip'' fs0) =
     Returns None
   \<and> map_option data (snd (Full (p0\<lparr>io_Copy_err := Some (0, ''read /tmp/dump1: input/output error'')\<rparr>) ''out.zip'' fs0)
        ''out.zip'') =
     Some (zip0 [(''snapshot.json'', ''{}''), (''stack.txt'', ''goroutine profile: total 2''),
                 (''heap.bin'', [])] True)"
  by (simp add: Full_eval)

end
